theory Spec2Isabelle
  imports Main "HOL-Library.Word"
begin

section \<open>Value types of the scheme interface\<close>

text \<open>
  A \<^verbatim>\<open>stash\<close> is a byte buffer (owned or a view); only its bytes matter here.
\<close>

type_synonym bytes = "8 word list"

text \<open>
  \<^verbatim>\<open>enum class error : std::int16_t { not_found = 404, invalid = 400, denied = 401, failed = -1 }\<close>
\<close>

datatype error = not_found | invalid | denied | failed

fun to_underlying :: "error \<Rightarrow> 16 word" where
  "to_underlying not_found = 404"
| "to_underlying invalid = 400"
| "to_underlying denied = 401"
| "to_underlying failed = - 1"

text \<open>
  \<^verbatim>\<open>rebind::utils::find_enum_name(error).value_or("unknown")\<close>: the enumerator's
  identifier (every value of the enumeration has one).
\<close>

fun find_enum_name :: "error \<Rightarrow> string" where
  "find_enum_name not_found = ''not_found''"
| "find_enum_name invalid = ''invalid''"
| "find_enum_name denied = ''denied''"
| "find_enum_name failed = ''failed''"

text \<open>
  \<^verbatim>\<open>struct stream_response { mime; headers; status }\<close> and
  \<^verbatim>\<open>struct response { data; mime; headers; status }\<close>. The two structs share their
  field names, so \<open>response\<close> is written as the extension of \<open>stream_response\<close> by
  \<open>data\<close>. A \<^verbatim>\<open>std::map<std::string, std::string>\<close> is a finite map.
\<close>

record stream_response =
  mime :: string
  headers :: "string \<rightharpoonup> string"
  status :: int

record response = stream_response +
  data :: bytes

text \<open>
  The members every backend's \<^verbatim>\<open>executor::impl\<close> has: the two atomic flags and
  the two \<^verbatim>\<open>std::function\<close> members, of which only whether they hold a callable
  is state (their bodies are \<open>*_resolve_closure\<close> and \<open>*_reject_closure\<close> below).
\<close>

record executor_impl =
  started :: bool
  finished :: bool
  resolve_set :: bool
  reject_set :: bool

text \<open>
  An executor handle together with what it points to and the native calls made so
  far: \<open>m_impl = None\<close> is the null \<^verbatim>\<open>shared_ptr\<close>.
\<close>

record ('i, 'e) executor =
  m_impl :: "'i option"
  trace :: "'e list"

text \<open>The calls of the public interface, for running sequences of them.\<close>

datatype call =
    Resolve response
  | Reject error
  | Start stream_response
  | Write bytes
  | Finish

section \<open>WebKitGTK backend (wkg.scheme.impl.cpp)\<close>

text \<open>
  A \<^verbatim>\<open>WebKitURISchemeRequest\<close> is known here by the web view it belongs to and its
  URI. \<^verbatim>\<open>executor::impl\<close> of this backend adds a reference to it and the write end
  of the pipe; \<open>write_fd\<close> is negative while there is no pipe.
\<close>

record uri_scheme_request =
  web_view :: nat
  uri :: string

record wkg_impl = executor_impl +
  request :: uri_scheme_request
  write_fd :: int

text \<open>
  What one \<^verbatim>\<open>::write(fd, ptr, remaining)\<close> returned: a count of accepted bytes, or
  \<open>-1\<close> with \<^verbatim>\<open>errno == EINTR\<close>, or \<open>-1\<close> with another \<^verbatim>\<open>errno\<close>.
\<close>

datatype write_result = Wrote nat | Eintr | Error

datatype wkg_stream = Memory_input_stream bytes | Unix_input_stream int

datatype wkg_event =
    Finish_with_response uri_scheme_request wkg_stream int string int "string \<rightharpoonup> string"
  | Finish_error uri_scheme_request int string
  | Sys_write int bytes write_result
  | Sys_close int

type_synonym wkg_executor = "(wkg_impl, wkg_event) executor"

text \<open>
  The lambda stored in \<^verbatim>\<open>exec_impl->resolve\<close>. It is only ever called through
  \<^verbatim>\<open>m_impl->resolve\<close>, so \<^verbatim>\<open>weak_impl.lock()\<close> yields the same impl.
  \<^verbatim>\<open>impl->started || impl->finished.exchange(true)\<close> leaves \<open>finished\<close> as it is
  when it returns early, and sets it otherwise.
\<close>

definition wkg_resolve_closure :: "response \<Rightarrow> wkg_impl \<Rightarrow> wkg_event list \<Rightarrow> wkg_executor" where
  "wkg_resolve_closure r i tr =
     (if started i \<or> finished i then \<lparr>m_impl = Some i, trace = tr\<rparr>
      else \<lparr>m_impl = Some (i\<lparr>finished := True\<rparr>),
             trace = tr @ [Finish_with_response (request i) (Memory_input_stream (data r))
                             (int (length (data r))) (mime r) (status r) (headers r)]\<rparr>)"

definition wkg_reject_closure :: "error \<Rightarrow> wkg_impl \<Rightarrow> wkg_event list \<Rightarrow> wkg_executor" where
  "wkg_reject_closure e i tr =
     (if finished i then \<lparr>m_impl = Some i, trace = tr\<rparr>
      else \<lparr>m_impl = Some (i\<lparr>finished := True\<rparr>),
             trace = tr @ [Finish_error (request i) (sint (to_underlying e)) (find_enum_name e)]\<rparr>)"

definition wkg_resolve :: "response \<Rightarrow> wkg_executor \<Rightarrow> wkg_executor" where
  "wkg_resolve r x =
     (case m_impl x of
        None \<Rightarrow> x
      | Some i \<Rightarrow> if resolve_set i then wkg_resolve_closure r i (trace x) else x)"

definition wkg_reject :: "error \<Rightarrow> wkg_executor \<Rightarrow> wkg_executor" where
  "wkg_reject e x =
     (case m_impl x of
        None \<Rightarrow> x
      | Some i \<Rightarrow>
          if started i then
            (if 0 \<le> write_fd i
             then \<lparr>m_impl = Some (i\<lparr>write_fd := - 1, finished := True\<rparr>),
                    trace = trace x @ [Sys_close (write_fd i)]\<rparr>
             else \<lparr>m_impl = Some (i\<lparr>finished := True\<rparr>), trace = trace x\<rparr>)
          else if reject_set i then wkg_reject_closure e i (trace x)
          else x)"

text \<open>
  \<^verbatim>\<open>executor::start\<close>. The second argument is what \<^verbatim>\<open>pipe(fds)\<close> returned:
  \<open>None\<close> for \<open>-1\<close>, \<open>Some (fds[0], fds[1])\<close> otherwise.
  \<^verbatim>\<open>m_impl->started.exchange(true)\<close> sets the flag before \<open>finished\<close> is read.
\<close>

definition wkg_start :: "stream_response \<Rightarrow> (int \<times> int) option \<Rightarrow> wkg_executor \<Rightarrow> wkg_executor" where
  "wkg_start r pipe x =
     (case m_impl x of
        None \<Rightarrow> x
      | Some i \<Rightarrow>
          if started i then x
          else let i1 = i\<lparr>started := True\<rparr> in
            if finished i1 then x\<lparr>m_impl := Some i1\<rparr>
            else (case pipe of
                    None \<Rightarrow> x\<lparr>m_impl := Some (i1\<lparr>started := False\<rparr>)\<rparr>
                  | Some (rfd, wfd) \<Rightarrow>
                      \<lparr>m_impl = Some (i1\<lparr>write_fd := wfd\<rparr>),
                       trace = trace x @ [Finish_with_response (request i1) (Unix_input_stream rfd)
                                            (- 1) (mime r) (status r) (headers r)]\<rparr>))"

text \<open>
  The loop of \<^verbatim>\<open>executor::write\<close>, over the results the successive
  \<^verbatim>\<open>::write\<close> calls return. Each call is logged with the bytes it was offered.
  A result \<open>Wrote k\<close> advances by \<open>k\<close> (the kernel never reports more than it was
  offered). The loop has no bound of its own: when the results run out before the
  data does, it has not returned (\<open>None\<close>).
\<close>

fun write_loop :: "int \<Rightarrow> bytes \<Rightarrow> write_result list \<Rightarrow> wkg_event list option" where
  "write_loop fd [] sys = Some []"
| "write_loop fd (b # bs) [] = None"
| "write_loop fd (b # bs) (Wrote k # sys) =
     map_option ((#) (Sys_write fd (b # bs) (Wrote k))) (write_loop fd (drop k (b # bs)) sys)"
| "write_loop fd (b # bs) (Eintr # sys) =
     map_option ((#) (Sys_write fd (b # bs) Eintr)) (write_loop fd (b # bs) sys)"
| "write_loop fd (b # bs) (Error # sys) = Some [Sys_write fd (b # bs) Error]"

definition wkg_write :: "bytes \<Rightarrow> write_result list \<Rightarrow> wkg_executor \<Rightarrow> wkg_executor option" where
  "wkg_write d sys x =
     (case m_impl x of
        None \<Rightarrow> Some x
      | Some i \<Rightarrow>
          if \<not> started i \<or> finished i \<or> write_fd i < 0 then Some x
          else map_option (\<lambda>evs. x\<lparr>trace := trace x @ evs\<rparr>) (write_loop (write_fd i) d sys))"

definition wkg_finish :: "wkg_executor \<Rightarrow> wkg_executor" where
  "wkg_finish x =
     (case m_impl x of
        None \<Rightarrow> x
      | Some i \<Rightarrow>
          if \<not> started i \<or> finished i then x
          else if 0 \<le> write_fd i
          then \<lparr>m_impl = Some (i\<lparr>finished := True, write_fd := - 1\<rparr>),
                 trace = trace x @ [Sys_close (write_fd i)]\<rparr>
          else x\<lparr>m_impl := Some (i\<lparr>finished := True\<rparr>)\<rparr>)"

definition wkg_streaming :: "wkg_executor \<Rightarrow> bool" where
  "wkg_streaming x = (case m_impl x of None \<Rightarrow> False | Some i \<Rightarrow> \<not> finished i)"

text \<open>The bytes a logged \<^verbatim>\<open>::write\<close> put into the pipe, and those of a whole log.\<close>

fun accepted :: "wkg_event \<Rightarrow> bytes" where
  "accepted (Sys_write fd offered (Wrote k)) = take k offered"
| "accepted _ = []"

definition pipe_bytes :: "wkg_event list \<Rightarrow> bytes" where
  "pipe_bytes evs = concat (map accepted evs)"

text \<open>How many bytes a list of \<^verbatim>\<open>::write\<close> results accepts at most.\<close>

fun progress :: "write_result list \<Rightarrow> nat" where
  "progress [] = 0"
| "progress (Wrote k # sys) = k + progress sys"
| "progress (_ # sys) = progress sys"

text \<open>
  One call of the interface with what the operating system answers during it: the
  result of \<^verbatim>\<open>pipe\<close> (read by \<open>start\<close>) and the results of \<^verbatim>\<open>::write\<close> (read
  by \<open>write\<close>).
\<close>

type_synonym os = "(int \<times> int) option \<times> write_result list"

fun wkg_call :: "call \<times> os \<Rightarrow> wkg_executor \<Rightarrow> wkg_executor option" where
  "wkg_call (Resolve r, pipe, sys) x = Some (wkg_resolve r x)"
| "wkg_call (Reject e, pipe, sys) x = Some (wkg_reject e x)"
| "wkg_call (Start r, pipe, sys) x = Some (wkg_start r pipe x)"
| "wkg_call (Write d, pipe, sys) x = wkg_write d sys x"
| "wkg_call (Finish, pipe, sys) x = Some (wkg_finish x)"

fun wkg_run :: "(call \<times> os) list \<Rightarrow> wkg_executor \<Rightarrow> wkg_executor option" where
  "wkg_run [] x = Some x"
| "wkg_run (c # cs) x = (case wkg_call c x of None \<Rightarrow> None | Some x' \<Rightarrow> wkg_run cs x')"


section \<open>WebKit backend (wk.scheme.impl.mm)\<close>

text \<open>
  A \<^verbatim>\<open>WKURLSchemeTask\<close> is known by its \<^verbatim>\<open>hash\<close> and the URL of its request. The
  impl holds the task and the key (\<open>handle\<close>) under which the handler's table
  \<^verbatim>\<open>m_tasks\<close> holds it; the table is shared with the handler, so it is part of the
  state next to the executor.
\<close>

record wk_task =
  hash :: nat
  url :: string

record wk_impl = executor_impl +
  task :: wk_task
  handle :: nat

datatype wk_message =
    Did_receive_response wk_task int "string \<rightharpoonup> string"
  | Did_receive_data wk_task bytes
  | Did_finish wk_task
  | Did_fail_with_error wk_task int

text \<open>
  A message is sent to the task either in place, under the table's lock, or in a
  block handed to \<^verbatim>\<open>dispatch_async(dispatch_get_main_queue(), ...)\<close>; the main queue
  runs its blocks in the order they were handed in.
\<close>

datatype wk_event = Direct wk_message | Main_queue wk_message

record wk_executor = "(wk_impl, wk_event) executor" +
  tasks :: "nat \<rightharpoonup> wk_task"

text \<open>\<^verbatim>\<open>[NSString stringWithFormat:@"%zu", n]\<close>: decimal digits.\<close>

function dec :: "nat \<Rightarrow> string" where
  "dec n = (if n < 10 then [char_of (48 + n)] else dec (n div 10) @ [char_of (48 + n mod 10)])"
  by pat_completeness auto
termination
  by (relation "measure id") auto

declare dec.simps [simp del]

definition wk_resolve_closure :: "response \<Rightarrow> wk_impl \<Rightarrow> wk_executor \<Rightarrow> wk_executor" where
  "wk_resolve_closure r i x =
     (if started i \<or> finished i then x
      else let x1 = x\<lparr>m_impl := Some (i\<lparr>finished := True\<rparr>)\<rparr> in
        (case tasks x (handle i) of
           None \<Rightarrow> x1
         | Some t \<Rightarrow>
             x1\<lparr>trace := trace x @
                   [Direct (Did_receive_response t (status r)
                      ((headers r)(''Content-Type'' \<mapsto> mime r,
                                   ''Content-Length'' \<mapsto> dec (length (data r))))),
                    Direct (Did_receive_data t (data r)),
                    Direct (Did_finish t)],
                tasks := (tasks x)(handle i := None)\<rparr>))"

definition wk_reject_closure :: "error \<Rightarrow> wk_impl \<Rightarrow> wk_executor \<Rightarrow> wk_executor" where
  "wk_reject_closure e i x =
     (if finished i then x
      else let x1 = x\<lparr>m_impl := Some (i\<lparr>finished := True\<rparr>)\<rparr> in
        (case tasks x (handle i) of
           None \<Rightarrow> x1
         | Some t \<Rightarrow>
             x1\<lparr>trace := trace x @ [Direct (Did_fail_with_error t (sint (to_underlying e)))],
                tasks := (tasks x)(handle i := None)\<rparr>))"

definition wk_resolve :: "response \<Rightarrow> wk_executor \<Rightarrow> wk_executor" where
  "wk_resolve r x =
     (case m_impl x of
        None \<Rightarrow> x
      | Some i \<Rightarrow> if resolve_set i then wk_resolve_closure r i x else x)"

text \<open>
  \<^verbatim>\<open>m_impl->started && !m_impl->finished.exchange(true)\<close>: the exchange is only
  reached when \<open>started\<close> is set, and changes \<open>finished\<close> only when it was clear.
\<close>

definition wk_reject :: "error \<Rightarrow> wk_executor \<Rightarrow> wk_executor" where
  "wk_reject e x =
     (case m_impl x of
        None \<Rightarrow> x
      | Some i \<Rightarrow>
          if started i \<and> \<not> finished i then
            let x1 = x\<lparr>m_impl := Some (i\<lparr>finished := True\<rparr>)\<rparr> in
            (case tasks x (handle i) of
               None \<Rightarrow> x1
             | Some t \<Rightarrow>
                 x1\<lparr>trace := trace x @ [Main_queue (Did_fail_with_error t (sint (to_underlying e)))],
                    tasks := (tasks x)(handle i := None)\<rparr>)
          else if reject_set i then wk_reject_closure e i x
          else x)"

definition wk_start :: "stream_response \<Rightarrow> wk_executor \<Rightarrow> wk_executor" where
  "wk_start r x =
     (case m_impl x of
        None \<Rightarrow> x
      | Some i \<Rightarrow>
          if started i then x
          else let i1 = i\<lparr>started := True\<rparr> in
            if finished i1 then x\<lparr>m_impl := Some i1\<rparr>
            else (case tasks x (handle i1) of
                    None \<Rightarrow> x\<lparr>m_impl := Some (i1\<lparr>started := False\<rparr>)\<rparr>
                  | Some t \<Rightarrow>
                      x\<lparr>m_impl := Some i1,
                        trace := trace x @
                          [Main_queue (Did_receive_response t (status r)
                             ((headers r)(''Content-Type'' \<mapsto> mime r)))]\<rparr>))"

definition wk_write :: "bytes \<Rightarrow> wk_executor \<Rightarrow> wk_executor" where
  "wk_write d x =
     (case m_impl x of
        None \<Rightarrow> x
      | Some i \<Rightarrow>
          if \<not> started i \<or> finished i then x
          else (case tasks x (handle i) of
                  None \<Rightarrow> x
                | Some t \<Rightarrow> x\<lparr>trace := trace x @ [Main_queue (Did_receive_data t d)]\<rparr>))"

definition wk_finish :: "wk_executor \<Rightarrow> wk_executor" where
  "wk_finish x =
     (case m_impl x of
        None \<Rightarrow> x
      | Some i \<Rightarrow>
          if \<not> started i \<or> finished i then x
          else let x1 = x\<lparr>m_impl := Some (i\<lparr>finished := True\<rparr>)\<rparr> in
            (case tasks x (handle i) of
               None \<Rightarrow> x1
             | Some t \<Rightarrow>
                 x1\<lparr>trace := trace x @ [Main_queue (Did_finish t)],
                    tasks := (tasks x)(handle i := None)\<rparr>))"

definition wk_streaming :: "wk_executor \<Rightarrow> bool" where
  "wk_streaming x =
     (case m_impl x of
        None \<Rightarrow> False
      | Some i \<Rightarrow> tasks x (handle i) \<noteq> None \<and> \<not> finished i)"

text \<open>\<^verbatim>\<open>webView:stopURLSchemeTask:\<close> erases the task's key from the table.\<close>

definition stopURLSchemeTask :: "wk_task \<Rightarrow> wk_executor \<Rightarrow> wk_executor" where
  "stopURLSchemeTask t x = x\<lparr>tasks := (tasks x)(hash t := None)\<rparr>"


fun wk_call :: "call \<Rightarrow> wk_executor \<Rightarrow> wk_executor" where
  "wk_call (Resolve r) x = wk_resolve r x"
| "wk_call (Reject e) x = wk_reject e x"
| "wk_call (Start r) x = wk_start r x"
| "wk_call (Write d) x = wk_write d x"
| "wk_call Finish x = wk_finish x"

definition wk_run :: "call list \<Rightarrow> wk_executor \<Rightarrow> wk_executor" where
  "wk_run cs x = fold wk_call cs x"

section \<open>Qt backend (qt.scheme.cpp)\<close>

text \<open>
  A \<^verbatim>\<open>QWebEngineUrlRequestJob\<close> as far as the code reads it. \<^verbatim>\<open>requestHeaders()\<close>
  is a \<^verbatim>\<open>QMap\<close>, written as the list of its entries in key order;
  \<^verbatim>\<open>requestBody()\<close> is a device (or null) that may or may not open for reading.
\<close>

record qt_body =
  opens :: bool
  contents :: bytes

record qt_job =
  requestUrl :: string
  requestMethod :: string
  requestHeaders :: "(string \<times> string) list"
  requestBody :: "qt_body option"

datatype qt_job_error =
  NoError | UrlNotFound | UrlInvalid | RequestAborted | RequestDenied | RequestFailed

text \<open>
  What \<^verbatim>\<open>reply\<close> is given to read from: a \<^verbatim>\<open>QBuffer\<close> holding the whole payload,
  or the executor's \<^verbatim>\<open>stream_device\<close>.
\<close>

datatype qt_reply_device = Buffer bytes | Stream_device

text \<open>
  The calls on the job (\<^verbatim>\<open>setAdditionalResponseHeaders\<close>, \<^verbatim>\<open>reply\<close>, \<^verbatim>\<open>fail\<close>) and on
  the stream device (\<^verbatim>\<open>push\<close>, \<^verbatim>\<open>close_write\<close>; each ends by queueing the device's
  \<^verbatim>\<open>readyRead\<close> signal).
\<close>

datatype qt_event =
    Set_additional_response_headers "string \<rightharpoonup> string"
  | Reply string qt_reply_device
  | Fail qt_job_error
  | Push bytes
  | Close_write

text \<open>
  \<^verbatim>\<open>executor::impl\<close> adds \<open>device\<close>, here whether the pointer is non-null. The
  request is a shared, locked cell holding the job pointer; the cell is shared with
  the request snapshot and the job's \<^verbatim>\<open>destroyed\<close> connection, so its content
  (\<open>request_value\<close>, \<open>None\<close> for \<^verbatim>\<open>nullptr\<close>) is part of the state next to the
  executor.
\<close>

record qt_impl = executor_impl +
  device :: bool

record qt_executor = "(qt_impl, qt_event) executor" +
  request_value :: "qt_job option"

text \<open>
  \<^verbatim>\<open>to_array\<close> turns each pair of \<^verbatim>\<open>std::string\<close> into a pair of
  \<^verbatim>\<open>QByteArray\<close>, from which the \<^verbatim>\<open>QMultiMap\<close> of response headers is built:
  the map keeps its entries.
\<close>

definition to_array :: "(string \<rightharpoonup> string) \<Rightarrow> (string \<rightharpoonup> string)" where
  "to_array hs = hs"

definition qt_resolve_closure :: "response \<Rightarrow> qt_impl \<Rightarrow> qt_executor \<Rightarrow> qt_executor" where
  "qt_resolve_closure r i x =
     (if started i \<or> finished i then x
      else let x1 = x\<lparr>m_impl := Some (i\<lparr>finished := True\<rparr>)\<rparr> in
        (case request_value x of
           None \<Rightarrow> x1
         | Some req \<Rightarrow>
             x1\<lparr>trace := trace x @
                   [Set_additional_response_headers (to_array (headers r)),
                    Reply (mime r) (Buffer (data r))]\<rparr>))"

fun qt_error_of :: "error \<Rightarrow> qt_job_error" where
  "qt_error_of not_found = UrlNotFound"
| "qt_error_of invalid = UrlInvalid"
| "qt_error_of denied = RequestDenied"
| "qt_error_of failed = RequestFailed"

definition qt_reject_closure :: "error \<Rightarrow> qt_impl \<Rightarrow> qt_executor \<Rightarrow> qt_executor" where
  "qt_reject_closure e i x =
     (if finished i then x
      else let x1 = x\<lparr>m_impl := Some (i\<lparr>finished := True\<rparr>)\<rparr> in
        (case request_value x of
           None \<Rightarrow> x1
         | Some req \<Rightarrow> x1\<lparr>trace := trace x @ [Fail (qt_error_of e)]\<rparr>))"

definition qt_resolve :: "response \<Rightarrow> qt_executor \<Rightarrow> qt_executor" where
  "qt_resolve r x =
     (case m_impl x of
        None \<Rightarrow> x
      | Some i \<Rightarrow> if resolve_set i then qt_resolve_closure r i x else x)"

definition qt_reject :: "error \<Rightarrow> qt_executor \<Rightarrow> qt_executor" where
  "qt_reject e x =
     (case m_impl x of
        None \<Rightarrow> x
      | Some i \<Rightarrow>
          let x1 = (if started i \<and> device i then x\<lparr>trace := trace x @ [Close_write]\<rparr> else x)
          in if reject_set i then qt_reject_closure e i x1 else x1)"

definition qt_start :: "stream_response \<Rightarrow> qt_executor \<Rightarrow> qt_executor" where
  "qt_start r x =
     (case m_impl x of
        None \<Rightarrow> x
      | Some i \<Rightarrow>
          if started i then x
          else let i1 = i\<lparr>started := True\<rparr> in
            if finished i1 then x\<lparr>m_impl := Some i1\<rparr>
            else if \<not> device i1 then x\<lparr>m_impl := Some (i1\<lparr>started := False\<rparr>)\<rparr>
            else (case request_value x of
                    None \<Rightarrow> x\<lparr>m_impl := Some (i1\<lparr>started := False\<rparr>)\<rparr>
                  | Some req \<Rightarrow>
                      x\<lparr>m_impl := Some i1,
                        trace := trace x @
                          [Set_additional_response_headers (to_array (headers r)),
                           Reply (mime r) Stream_device]\<rparr>))"

definition qt_write :: "bytes \<Rightarrow> qt_executor \<Rightarrow> qt_executor" where
  "qt_write d x =
     (case m_impl x of
        None \<Rightarrow> x
      | Some i \<Rightarrow>
          if \<not> started i \<or> finished i \<or> \<not> device i then x
          else x\<lparr>trace := trace x @ [Push d]\<rparr>)"

definition qt_finish :: "qt_executor \<Rightarrow> qt_executor" where
  "qt_finish x =
     (case m_impl x of
        None \<Rightarrow> x
      | Some i \<Rightarrow>
          if \<not> started i \<or> finished i then x
          else let x1 = x\<lparr>m_impl := Some (i\<lparr>finished := True\<rparr>)\<rparr> in
            if device i then x1\<lparr>trace := trace x @ [Close_write]\<rparr> else x1)"

definition qt_streaming :: "qt_executor \<Rightarrow> bool" where
  "qt_streaming x =
     (case m_impl x of
        None \<Rightarrow> False
      | Some i \<Rightarrow> request_value x \<noteq> None \<and> \<not> finished i)"

text \<open>
  The lambda connected to the job's \<^verbatim>\<open>destroyed\<close> signal in
  \<^verbatim>\<open>handler::requestStarted\<close>: \<^verbatim>\<open>request->assign(nullptr); device->close_write();\<close>
  on the cell and the device it captured.
\<close>

definition destroyed :: "qt_executor \<Rightarrow> qt_executor" where
  "destroyed x = x\<lparr>request_value := None, trace := trace x @ [Close_write]\<rparr>"

text \<open>
  The request snapshot \<^verbatim>\<open>request::impl\<close>: the shared cell and the body read when the
  request started. Its operations take the cell's current content. A call through
  a null job pointer does not return a value.
\<close>

record qt_request =
  body :: bytes

datatype crash = Null_dereference

definition request_url :: "qt_job option \<Rightarrow> qt_request \<Rightarrow> crash + string" where
  "request_url cell rq =
     (case cell of None \<Rightarrow> Inl Null_dereference | Some job \<Rightarrow> Inr (requestUrl job))"

definition request_method :: "qt_job option \<Rightarrow> qt_request \<Rightarrow> crash + string" where
  "request_method cell rq =
     (case cell of None \<Rightarrow> Inl Null_dereference | Some job \<Rightarrow> Inr (requestMethod job))"

definition request_content :: "qt_job option \<Rightarrow> qt_request \<Rightarrow> crash + bytes" where
  "request_content cell rq = Inr (body rq)"

text \<open>
  \<^verbatim>\<open>request::headers\<close> transforms the range \<open>headers\<close> itself. Iterating a \<^verbatim>\<open>QMap\<close>
  yields its values, so \<open>item\<close> is a value, and \<^verbatim>\<open>headers[item]\<close> on the constant
  map is the value stored under that key, or an empty one.
\<close>

definition request_headers :: "qt_job option \<Rightarrow> qt_request \<Rightarrow> crash + (string \<rightharpoonup> string)" where
  "request_headers cell rq =
     (case cell of
        None \<Rightarrow> Inl Null_dereference
      | Some job \<Rightarrow>
          let hs = requestHeaders job;
              transform = (\<lambda>item. (item, case map_of hs item of None \<Rightarrow> [] | Some v \<Rightarrow> v))
          in Inr (map_of (map transform (map snd hs))))"


fun qt_call :: "call \<Rightarrow> qt_executor \<Rightarrow> qt_executor" where
  "qt_call (Resolve r) x = qt_resolve r x"
| "qt_call (Reject e) x = qt_reject e x"
| "qt_call (Start r) x = qt_start r x"
| "qt_call (Write d) x = qt_write d x"
| "qt_call Finish x = qt_finish x"

definition qt_run :: "call list \<Rightarrow> qt_executor \<Rightarrow> qt_executor" where
  "qt_run cs x = fold qt_call cs x"

section \<open>Auxiliary notions\<close>

text \<open>An event is a \<^verbatim>\<open>::write\<close> on the given descriptor.\<close>

fun is_write_to :: "int \<Rightarrow> wkg_event \<Rightarrow> bool" where
  "is_write_to fd (Sys_write fd' offered res) = (fd' = fd)"
| "is_write_to fd _ = False"

text \<open>
  The invariant of the WebKitGTK impl: a pipe is open only between a successful
  \<open>start\<close> and the call that finishes the stream.
\<close>

definition wkg_inv :: "wkg_impl \<Rightarrow> bool" where
  "wkg_inv i = (0 \<le> write_fd i \<longrightarrow> started i \<and> \<not> finished i)"

section \<open>Example values\<close>

text \<open>
  Concrete requests, responses and executor states, at which the theorems below are
  instantiated: an idle executor of each backend as its handler builds it, and a
  WebKitGTK executor that has started streaming into the pipe with write end \<open>5\<close>.
\<close>

definition example_response :: response where
  "example_response = \<lparr>mime = ''text/plain'', headers = [''Cache-Control'' \<mapsto> ''no-cache''], status = 204, data = [1, 2, 3]\<rparr>"

definition example_stream_response :: stream_response where
  "example_stream_response = \<lparr>mime = ''application/octet-stream'', headers = [''Cache-Control'' \<mapsto> ''no-cache''], status = 200\<rparr>"

definition example_request :: uri_scheme_request where
  "example_request = \<lparr>web_view = 1, uri = ''stream://localhost/data''\<rparr>"

definition wkg_idle :: "wkg_executor" where
  "wkg_idle = \<lparr>m_impl = Some \<lparr>started = False, finished = False, resolve_set = True, reject_set = True,
       request = example_request, write_fd = - 1\<rparr>, trace = []\<rparr>"

definition wkg_streaming_state :: "wkg_executor" where
  "wkg_streaming_state = \<lparr>m_impl = Some \<lparr>started = True, finished = False, resolve_set = True, reject_set = True,
       request = example_request, write_fd = 5\<rparr>, trace = []\<rparr>"

definition example_task :: wk_task where
  "example_task = \<lparr>hash = 7, url = ''stream://localhost/data''\<rparr>"

definition wk_idle :: "wk_executor" where
  "wk_idle = \<lparr>m_impl = Some \<lparr>started = False, finished = False, resolve_set = True, reject_set = True,
       task = example_task, handle = 7\<rparr>, trace = [], tasks = [7 \<mapsto> example_task]\<rparr>"

definition example_job :: qt_job where
  "example_job = \<lparr>requestUrl = ''io://localhost/write'', requestMethod = ''POST'',
      requestHeaders = [(''Content-Type'', ''application/octet-stream'')],
      requestBody = Some \<lparr>opens = True, contents = [7, 8]\<rparr>\<rparr>"

definition qt_idle :: "qt_executor" where
  "qt_idle = \<lparr>m_impl = Some \<lparr>started = False, finished = False, resolve_set = True, reject_set = True,
       device = True\<rparr>, trace = [], request_value = Some example_job\<rparr>"






section \<open>Basic facts\<close>

lemmas wkg_defs = wkg_resolve_def wkg_resolve_closure_def wkg_reject_def wkg_reject_closure_def
  wkg_start_def wkg_write_def wkg_finish_def

lemmas wk_defs = wk_resolve_def wk_resolve_closure_def wk_reject_def wk_reject_closure_def
  wk_start_def wk_write_def wk_finish_def

lemmas qt_defs = qt_resolve_def qt_resolve_closure_def qt_reject_def qt_reject_closure_def
  qt_start_def qt_write_def qt_finish_def

lemma wkg_idle_impl:
  "m_impl wkg_idle = Some \<lparr>started = False, finished = False, resolve_set = True,
       reject_set = True, request = example_request, write_fd = - 1\<rparr>"
  by (simp add: wkg_idle_def)

lemma wk_idle_impl:
  "m_impl wk_idle = Some \<lparr>started = False, finished = False,
       resolve_set = True, reject_set = True, task = example_task, handle = 7\<rparr>"
  by (simp add: wk_idle_def)

lemma qt_idle_impl:
  "m_impl qt_idle = Some \<lparr>started = False, finished = False, resolve_set = True,
       reject_set = True, device = True\<rparr>"
  by (simp add: qt_idle_def)

lemma pipe_bytes_append: "pipe_bytes (evs @ evs') = pipe_bytes evs @ pipe_bytes evs'"
  by (simp add: pipe_bytes_def)

lemma write_loop_events:
  "write_loop fd d sys = Some evs \<Longrightarrow> list_all (is_write_to fd) evs"
  by (induction fd d sys arbitrary: evs rule: write_loop.induct) auto

lemma wk_run_Cons: "wk_run (c # cs) y = wk_run cs (wk_call c y)"
  by (simp add: wk_run_def)

lemma wk_run_append: "wk_run (cs @ cs') y = wk_run cs' (wk_run cs y)"
  by (simp add: wk_run_def)

lemma qt_run_Cons: "qt_run (c # cs) z = qt_run cs (qt_call c z)"
  by (simp add: qt_run_def)

lemma qt_run_append: "qt_run (cs @ cs') z = qt_run cs' (qt_run cs z)"
  by (simp add: qt_run_def)

lemma wkg_run_append:
  "wkg_run (cs @ cs') x = (case wkg_run cs x of None \<Rightarrow> None | Some x' \<Rightarrow> wkg_run cs' x')"
  by (induction cs arbitrary: x) (auto split: option.splits)

lemma pipe_bytes_Cons: "pipe_bytes (ev # evs) = accepted ev @ pipe_bytes evs"
  by (simp add: pipe_bytes_def)

lemma pipe_bytes_Nil: "pipe_bytes [] = []"
  by (simp add: pipe_bytes_def)

section \<open>The write loop of the WebKitGTK backend\<close>

lemma write_loop_complete:
  "Error \<notin> set sys \<Longrightarrow> length d \<le> progress sys \<Longrightarrow>
   \<exists>evs. write_loop fd d sys = Some evs \<and> pipe_bytes evs = d"
proof (induction fd d sys rule: write_loop.induct)
  case (1 fd sys)
  then show ?case by (simp add: pipe_bytes_Nil)
next
  case (2 fd b bs)
  then show ?case by simp
next
  case (3 fd b bs k sys)
  have "length (drop k (b # bs)) \<le> progress sys" using 3(3) by simp
  with 3 obtain evs where e: "write_loop fd (drop k (b # bs)) sys = Some evs" "pipe_bytes evs = drop k (b # bs)"
    by auto
  then show ?case by (simp add: pipe_bytes_Cons)
next
  case (4 fd b bs sys)
  then obtain evs where e: "write_loop fd (b # bs) sys = Some evs" "pipe_bytes evs = b # bs"
    by auto
  then show ?case by (simp add: pipe_bytes_Cons)
next
  case (5 fd b bs sys)
  then show ?case by simp
qed

lemma write_loop_prefix:
  "write_loop fd d sys = Some evs \<Longrightarrow>
   (\<exists>rest. d = pipe_bytes evs @ rest \<and>
      (rest = [] \<or> (evs \<noteq> [] \<and> last evs = Sys_write fd rest Error)))"
proof (induction fd d sys arbitrary: evs rule: write_loop.induct)
  case (1 fd sys)
  then show ?case by (simp add: pipe_bytes_Nil)
next
  case (2 fd b bs)
  then show ?case by simp
next
  case (3 fd b bs k sys)
  then obtain evs' where e: "write_loop fd (drop k (b # bs)) sys = Some evs'"
     "evs = Sys_write fd (b # bs) (Wrote k) # evs'" by auto
  from 3(1)[OF e(1)] obtain rest where r: "drop k (b # bs) = pipe_bytes evs' @ rest"
     "rest = [] \<or> (evs' \<noteq> [] \<and> last evs' = Sys_write fd rest Error)" by blast
  have "b # bs = take k (b # bs) @ drop k (b # bs)" by simp
  then have "b # bs = pipe_bytes evs @ rest" using r(1) e(2) by (simp add: pipe_bytes_Cons)
  moreover have "rest = [] \<or> (evs \<noteq> [] \<and> last evs = Sys_write fd rest Error)" using r(2) e(2) by auto
  ultimately show ?case by blast
next
  case (4 fd b bs sys)
  then obtain evs' where e: "write_loop fd (b # bs) sys = Some evs'"
     "evs = Sys_write fd (b # bs) Eintr # evs'" by auto
  from 4(1)[OF e(1)] obtain rest where r: "b # bs = pipe_bytes evs' @ rest"
     "rest = [] \<or> (evs' \<noteq> [] \<and> last evs' = Sys_write fd rest Error)" by blast
  have "b # bs = pipe_bytes evs @ rest" using r(1) e(2) by (simp add: pipe_bytes_Cons)
  moreover have "rest = [] \<or> (evs \<noteq> [] \<and> last evs = Sys_write fd rest Error)" using r(2) e(2) by auto
  ultimately show ?case by blast
next
  case (5 fd b bs sys)
  then show ?case by (auto simp: pipe_bytes_def)
qed

text \<open>
  C10. In the WebKitGTK backend, \<open>write\<close> on a streaming executor (started, not
  finished, pipe open) puts the chunk's bytes into the pipe completely and in order,
  whatever partial writes and \<^verbatim>\<open>EINTR\<close> interruptions occur: when no
  \<^verbatim>\<open>::write\<close> fails with another error and the calls accept enough bytes, the call
  returns and the bytes accepted by the pipe are exactly the chunk. Whenever the call
  returns, the impl (its flags and its descriptor) is unchanged, the bytes accepted
  are a prefix of the chunk, and a remainder is dropped only when the last
  \<^verbatim>\<open>::write\<close>, offered exactly that remainder, failed with an error other than
  \<^verbatim>\<open>EINTR\<close>.
\<close>

theorem wkg_write_delivers:
  assumes "m_impl x = Some i" and "started i" and "\<not> finished i" and "0 \<le> write_fd i"
  shows "(Error \<notin> set sys \<and> length d \<le> progress sys \<longrightarrow>
            (\<exists>evs. wkg_write d sys x = Some (x\<lparr>trace := trace x @ evs\<rparr>) \<and> pipe_bytes evs = d)) \<and>
         (\<forall>x'. wkg_write d sys x = Some x' \<longrightarrow>
            m_impl x' = m_impl x \<and>
            (\<exists>evs rest. trace x' = trace x @ evs \<and> d = pipe_bytes evs @ rest \<and>
               (rest = [] \<or> (evs \<noteq> [] \<and> last evs = Sys_write (write_fd i) rest Error))))"
proof (intro conjI impI allI)
  assume "Error \<notin> set sys \<and> length d \<le> progress sys"
  then obtain evs where "write_loop (write_fd i) d sys = Some evs" "pipe_bytes evs = d"
    using write_loop_complete by blast
  then show "\<exists>evs. wkg_write d sys x = Some (x\<lparr>trace := trace x @ evs\<rparr>) \<and> pipe_bytes evs = d"
    using assms by (auto simp: wkg_write_def)
next
  fix x' assume a: "wkg_write d sys x = Some x'"
  then obtain evs where e: "write_loop (write_fd i) d sys = Some evs" "x' = x\<lparr>trace := trace x @ evs\<rparr>"
    using assms by (auto simp: wkg_write_def)
  then show "m_impl x' = m_impl x" by simp
  from write_loop_prefix[OF e(1)] obtain rest where
    "d = pipe_bytes evs @ rest" "rest = [] \<or> (evs \<noteq> [] \<and> last evs = Sys_write (write_fd i) rest Error)"
    by blast
  then show "\<exists>evs rest. trace x' = trace x @ evs \<and> d = pipe_bytes evs @ rest \<and>
               (rest = [] \<or> (evs \<noteq> [] \<and> last evs = Sys_write (write_fd i) rest Error))"
    using e(2) by auto
qed

theorem wkg_write_delivers_witness:
  "(\<exists>evs. wkg_write [1, 2, 3] [Wrote 2, Eintr, Wrote 1] wkg_streaming_state
        = Some (wkg_streaming_state\<lparr>trace := trace wkg_streaming_state @ evs\<rparr>) \<and>
      pipe_bytes evs = [1, 2, 3]) \<and>
   wkg_write [1, 2, 3] [Wrote 2, Error] wkg_streaming_state
     = Some (wkg_streaming_state\<lparr>trace := [Sys_write 5 [1, 2, 3] (Wrote 2), Sys_write 5 [3] Error]\<rparr>)"
proof -
  have h: "m_impl wkg_streaming_state = Some \<lparr>started = True, finished = False, resolve_set = True, reject_set = True,
       request = example_request, write_fd = 5\<rparr>"
    by (simp add: wkg_streaming_state_def)
  have "Error \<notin> set [Wrote 2, Eintr, Wrote 1] \<and> length [1, 2, 3 :: 8 word] \<le> progress [Wrote 2, Eintr, Wrote 1]"
    by simp
  with wkg_write_delivers [OF h, of "[Wrote 2, Eintr, Wrote 1]" "[1, 2, 3]"]
  have "\<exists>evs. wkg_write [1, 2, 3] [Wrote 2, Eintr, Wrote 1] wkg_streaming_state
        = Some (wkg_streaming_state\<lparr>trace := trace wkg_streaming_state @ evs\<rparr>) \<and>
      pipe_bytes evs = [1, 2, 3]" by simp
  moreover have "wkg_write [1, 2, 3] [Wrote 2, Error] wkg_streaming_state
     = Some (wkg_streaming_state\<lparr>trace := [Sys_write 5 [1, 2, 3] (Wrote 2), Sys_write 5 [3] Error]\<rparr>)"
    by (simp add: wkg_write_def wkg_streaming_state_def)
  ultimately show ?thesis by blast
qed

section \<open>Sequences of writes\<close>

lemma wk_writes_streaming:
  "m_impl y = Some j \<Longrightarrow> started j \<Longrightarrow> \<not> finished j \<Longrightarrow> tasks y (handle j) = Some t \<Longrightarrow>
   wk_run (map Write ds) y =
     y\<lparr>trace := trace y @ map (\<lambda>d. Main_queue (Did_receive_data t d)) ds\<rparr>"
proof (induction ds arbitrary: y)
  case Nil
  then show ?case by (simp add: wk_run_def)
next
  case (Cons d ds)
  let ?y = "y\<lparr>trace := trace y @ [Main_queue (Did_receive_data t d)]\<rparr>"
  have w: "wk_write d y = ?y"
    using Cons.prems by (simp add: wk_write_def)
  have "wk_run (map Write ds) ?y =
     ?y\<lparr>trace := trace ?y @ map (\<lambda>d. Main_queue (Did_receive_data t d)) ds\<rparr>"
    using Cons.prems by (intro Cons.IH) simp_all
  then show ?case by (simp add: wk_run_Cons w)
qed

lemma qt_writes_streaming:
  "m_impl z = Some k \<Longrightarrow> started k \<Longrightarrow> \<not> finished k \<Longrightarrow> device k \<Longrightarrow>
   qt_run (map Write ds) z = z\<lparr>trace := trace z @ map Push ds\<rparr>"
proof (induction ds arbitrary: z)
  case Nil
  then show ?case by (simp add: qt_run_def)
next
  case (Cons d ds)
  let ?z = "z\<lparr>trace := trace z @ [Push d]\<rparr>"
  have w: "qt_write d z = ?z"
    using Cons.prems by (simp add: qt_write_def)
  have "qt_run (map Write ds) ?z = ?z\<lparr>trace := trace ?z @ map Push ds\<rparr>"
    using Cons.prems by (intro Cons.IH) simp_all
  then show ?case by (simp add: qt_run_Cons w)
qed

lemma wkg_writes_streaming:
  "m_impl x = Some i \<Longrightarrow> started i \<Longrightarrow> \<not> finished i \<Longrightarrow> 0 \<le> write_fd i \<Longrightarrow>
   \<forall>(d, sys) \<in> set ws. Error \<notin> set sys \<and> length d \<le> progress sys \<Longrightarrow>
   \<exists>evs. wkg_run (map (\<lambda>(d, sys). (Write d, None, sys)) ws) x = Some (x\<lparr>trace := trace x @ evs\<rparr>) \<and>
         list_all (is_write_to (write_fd i)) evs \<and> pipe_bytes evs = concat (map fst ws)"
proof (induction ws arbitrary: x)
  case Nil
  have "wkg_run (map (\<lambda>(d, sys). (Write d, None, sys)) []) x = Some (x\<lparr>trace := trace x @ []\<rparr>) \<and>
        list_all (is_write_to (write_fd i)) [] \<and> pipe_bytes [] = concat (map fst [])"
    by (simp add: pipe_bytes_def)
  then show ?case by blast
next
  case (Cons w ws)
  obtain d sys where w: "w = (d, sys)" by (cases w)
  have ok: "Error \<notin> set sys" "length d \<le> progress sys"
    using Cons.prems(5) w by auto
  obtain evs where e: "write_loop (write_fd i) d sys = Some evs" "pipe_bytes evs = d"
    using write_loop_complete [OF ok] by blast
  let ?x = "x\<lparr>trace := trace x @ evs\<rparr>"
  have wr: "wkg_write d sys x = Some ?x"
    using Cons.prems(1-4) e(1) by (simp add: wkg_write_def)
  have rest: "\<forall>(d, sys) \<in> set ws. Error \<notin> set sys \<and> length d \<le> progress sys"
    using Cons.prems(5) by simp
  have "\<exists>evs'. wkg_run (map (\<lambda>(d, sys). (Write d, None, sys)) ws) ?x = Some (?x\<lparr>trace := trace ?x @ evs'\<rparr>) \<and>
         list_all (is_write_to (write_fd i)) evs' \<and> pipe_bytes evs' = concat (map fst ws)"
    using Cons.prems(1-4) rest by (intro Cons.IH) simp_all
  then obtain evs' where e': "wkg_run (map (\<lambda>(d, sys). (Write d, None, sys)) ws) ?x = Some (?x\<lparr>trace := trace ?x @ evs'\<rparr>)"
    "list_all (is_write_to (write_fd i)) evs'" "pipe_bytes evs' = concat (map fst ws)" by blast
  have "wkg_run (map (\<lambda>(d, sys). (Write d, None, sys)) (w # ws)) x = Some (x\<lparr>trace := trace x @ (evs @ evs')\<rparr>)"
    using wr e'(1) by (simp add: w)
  moreover have "list_all (is_write_to (write_fd i)) (evs @ evs')"
    using write_loop_events [OF e(1)] e'(2) by simp
  moreover have "pipe_bytes (evs @ evs') = concat (map fst (w # ws))"
    using e(2) e'(3) by (simp add: pipe_bytes_append w)
  ultimately show ?case by blast
qed

lemma wk_write_absent:
  "m_impl y = Some j \<Longrightarrow> tasks y (handle j) = None \<Longrightarrow> wk_write d y = y"
  by (simp add: wk_write_def)

lemma wk_writes_absent:
  "m_impl y = Some j \<Longrightarrow> tasks y (handle j) = None \<Longrightarrow> wk_run (map Write ds) y = y"
  by (induction ds) (simp_all add: wk_run_def wk_write_absent)

section \<open>The state machine after a terminal transition\<close>

text \<open>
  In the WebKitGTK and WebKit backends a finished executor makes no further native
  call, whatever is called on it; and in all three backends an executor that has left
  the idle state, or is left by a call that made a native call, never is idle again.
\<close>

lemma wkg_call_inv:
  assumes "m_impl x = Some i" and "wkg_inv i" and "wkg_call c x = Some x'"
  shows "\<exists>i'. m_impl x' = Some i' \<and> wkg_inv i'"
proof -
  obtain a pipe sys where c: "c = (a, pipe, sys)" by (cases c)
  show ?thesis
    using assms unfolding c
    by (cases a) (auto simp: wkg_defs wkg_inv_def Let_def split: if_splits option.splits)
qed

lemma wkg_terminal_noop:
  assumes "m_impl x = Some i" and "finished i" and "wkg_inv i"
  shows "\<exists>x' i'. wkg_call c x = Some x' \<and> trace x' = trace x \<and>
           m_impl x' = Some i' \<and> finished i' \<and> wkg_inv i'"
proof -
  obtain a pipe sys where c: "c = (a, pipe, sys)" by (cases c)
  show ?thesis
    using assms unfolding c
    by (cases a) (auto simp: wkg_defs wkg_inv_def Let_def split: if_splits option.splits)
qed

lemma wkg_terminal_run:
  "m_impl x = Some i \<Longrightarrow> finished i \<Longrightarrow> wkg_inv i \<Longrightarrow>
   \<exists>x'. wkg_run cs x = Some x' \<and> trace x' = trace x"
proof (induction cs arbitrary: x i)
  case Nil
  then show ?case by simp
next
  case (Cons c cs)
  from wkg_terminal_noop [OF Cons.prems, of c] obtain x' i' where
    s: "wkg_call c x = Some x'" "trace x' = trace x" "m_impl x' = Some i'" "finished i'" "wkg_inv i'"
    by blast
  from Cons.IH [OF s(3-5)] obtain x'' where "wkg_run cs x' = Some x''" "trace x'' = trace x'"
    by blast
  then show ?case using s(1,2) by simp
qed

lemma wk_terminal_noop:
  assumes "m_impl y = Some j" and "finished j"
  shows "trace (wk_call c y) = trace y \<and> tasks (wk_call c y) = tasks y \<and>
         (\<exists>j'. m_impl (wk_call c y) = Some j' \<and> finished j')"
  using assms by (cases c) (auto simp: wk_defs Let_def split: if_splits option.splits)

lemma wk_terminal_run:
  "m_impl y = Some j \<Longrightarrow> finished j \<Longrightarrow>
   trace (wk_run cs y) = trace y \<and> tasks (wk_run cs y) = tasks y"
proof (induction cs arbitrary: y j)
  case Nil
  then show ?case by (simp add: wk_run_def)
next
  case (Cons c cs)
  from wk_terminal_noop [OF Cons.prems, of c] obtain j' where
    s: "trace (wk_call c y) = trace y" "tasks (wk_call c y) = tasks y"
       "m_impl (wk_call c y) = Some j'" "finished j'"
    by blast
  from Cons.IH [OF s(3,4)] show ?case by (simp add: wk_run_Cons s(1,2))
qed

lemma wkg_leaves_idle:
  assumes "m_impl x = Some i" and "wkg_call c x = Some x'"
    and "started i \<or> finished i \<or> trace x' \<noteq> trace x"
  shows "\<exists>i'. m_impl x' = Some i' \<and> (started i' \<or> finished i')"
proof -
  obtain a pipe sys where c: "c = (a, pipe, sys)" by (cases c)
  show ?thesis
    using assms unfolding c
    by (cases a) (auto simp: wkg_defs Let_def split: if_splits option.splits)
qed

lemma wk_leaves_idle:
  assumes "m_impl y = Some j"
    and "started j \<or> finished j \<or> trace (wk_call c y) \<noteq> trace y"
  shows "\<exists>j'. m_impl (wk_call c y) = Some j' \<and> (started j' \<or> finished j')"
  using assms by (cases c) (auto simp: wk_defs Let_def split: if_splits option.splits)

lemma qt_leaves_idle:
  assumes "m_impl z = Some k"
    and "started k \<or> finished k \<or> trace (qt_call c z) \<noteq> trace z"
  shows "\<exists>k'. m_impl (qt_call c z) = Some k' \<and> (started k' \<or> finished k')"
  using assms by (cases c) (auto simp: qt_defs Let_def split: if_splits option.splits)

lemma qt_reject_finished_stream:
  assumes "m_impl z = Some k" and "started k" and "finished k" and "device k"
  shows "qt_reject e z = z\<lparr>trace := trace z @ [Close_write]\<rparr>"
  using assms by (simp add: qt_reject_def qt_reject_closure_def Let_def)

text \<open>
  C1. After a terminal transition every later \<open>resolve\<close>, \<open>reject\<close>, \<open>start\<close>,
  \<open>write\<close> or \<open>finish\<close> is to make no native call. The Qt backend's \<open>reject\<close>
  does not keep to it: on a stream that \<open>start\<close> opened and \<open>finish\<close> closed (one
  \<^verbatim>\<open>close_write\<close>, after which \<open>streaming\<close> is false), \<open>reject\<close> calls
  \<^verbatim>\<open>close_write\<close> on the device a second time, since its test is
  \<^verbatim>\<open>m_impl->started && m_impl->device\<close> and does not read \<open>finished\<close>
  (\<open>qt_reject_finished_stream\<close> above is the general fact). In the WebKitGTK and
  WebKit backends no call on a finished executor makes a native call
  (\<open>wkg_terminal_run\<close>, \<open>wk_terminal_run\<close>).
\<close>

theorem qt_reject_after_finish_closes_again:
  "trace (qt_run [Start example_stream_response, Finish] qt_idle) =
     [Set_additional_response_headers [''Cache-Control'' \<mapsto> ''no-cache''],
      Reply ''application/octet-stream'' Stream_device, Close_write] \<and>
   \<not> qt_streaming (qt_run [Start example_stream_response, Finish] qt_idle) \<and>
   trace (qt_run [Start example_stream_response, Finish, Reject not_found] qt_idle) =
     [Set_additional_response_headers [''Cache-Control'' \<mapsto> ''no-cache''],
      Reply ''application/octet-stream'' Stream_device, Close_write, Close_write]"
  by (simp add: qt_run_def qt_idle_def example_stream_response_def qt_streaming_def
      qt_start_def qt_finish_def qt_reject_def qt_reject_closure_def to_array_def)

section \<open>Streaming a response\<close>

text \<open>
  C2, amended. For \<open>start\<close>, then a \<open>write\<close> for each chunk, then \<open>finish\<close>, on an
  idle executor whose native request is live:
  \<^item> WebKitGTK, when \<^verbatim>\<open>pipe\<close> succeeds and the \<^verbatim>\<open>::write\<close> calls of each chunk
    accept it without an error other than \<^verbatim>\<open>EINTR\<close>: the run returns; one
    \<^verbatim>\<open>finish_with_response\<close> carries the pipe's read end, the mime type, the status
    and the headers; then come only \<^verbatim>\<open>::write\<close> calls on the write end, and the
    bytes they put into the pipe are the chunks' bytes in the order written; then the
    write end is closed once, and nothing follows;
  \<^item> WebKit: one \<^verbatim>\<open>didReceiveResponse\<close> carrying the status and the headers with
    \<^verbatim>\<open>Content-Type\<close> set to the mime type, then one \<^verbatim>\<open>didReceiveData\<close> per chunk
    in the order written, then one \<^verbatim>\<open>didFinish\<close>, all on the main queue, and the
    table entry is erased;
  \<^item> Qt: the headers and one \<^verbatim>\<open>reply\<close> with the mime type and the stream device
    (the status is not passed on), then one \<^verbatim>\<open>push\<close> per chunk in the order
    written, then one \<^verbatim>\<open>close_write\<close>.
\<close>

theorem stream_sequence:
  assumes "m_impl x = Some i" and "\<not> started i" and "\<not> finished i" and "0 \<le> wfd"
    and "\<forall>(d, sys) \<in> set ws. Error \<notin> set sys \<and> length d \<le> progress sys"
    and "m_impl y = Some j" and "\<not> started j" and "\<not> finished j"
    and "tasks y (handle j) = Some t"
    and "m_impl z = Some k" and "\<not> started k" and "\<not> finished k" and "device k"
    and "request_value z = Some job"
  shows "(\<exists>evs. wkg_run ((Start r, Some (rfd, wfd), []) #
                      map (\<lambda>(d, sys). (Write d, None, sys)) ws @ [(Finish, None, [])]) x =
                 Some \<lparr>m_impl = Some (i\<lparr>started := True, finished := True, write_fd := - 1\<rparr>),
                       trace = trace x @
                         [Finish_with_response (request i) (Unix_input_stream rfd) (- 1)
                            (mime r) (status r) (headers r)] @ evs @ [Sys_close wfd]\<rparr> \<and>
               list_all (is_write_to wfd) evs \<and> pipe_bytes evs = concat (map fst ws)) \<and>
         wk_run (Start r # map Write ds @ [Finish]) y =
           y\<lparr>m_impl := Some (j\<lparr>started := True, finished := True\<rparr>),
             trace := trace y @
               [Main_queue (Did_receive_response t (status r)
                  ((headers r)(''Content-Type'' \<mapsto> mime r)))] @
               map (\<lambda>d. Main_queue (Did_receive_data t d)) ds @ [Main_queue (Did_finish t)],
             tasks := (tasks y)(handle j := None)\<rparr> \<and>
         qt_run (Start r # map Write ds @ [Finish]) z =
           z\<lparr>m_impl := Some (k\<lparr>started := True, finished := True\<rparr>),
             trace := trace z @
               [Set_additional_response_headers (headers r), Reply (mime r) Stream_device] @
               map Push ds @ [Close_write]\<rparr>"
proof -
  \<comment> \<open>WebKitGTK\<close>
  let ?i1 = "i\<lparr>started := True, write_fd := wfd\<rparr>"
  let ?x1 = "\<lparr>m_impl = Some ?i1,
               trace = trace x @ [Finish_with_response (request i) (Unix_input_stream rfd) (- 1)
                                    (mime r) (status r) (headers r)]\<rparr>"
  have s1: "wkg_start r (Some (rfd, wfd)) x = ?x1"
    using assms(1-3) by (simp add: wkg_start_def Let_def)
  have "\<exists>evs. wkg_run (map (\<lambda>(d, sys). (Write d, None, sys)) ws) ?x1 = Some (?x1\<lparr>trace := trace ?x1 @ evs\<rparr>) \<and>
         list_all (is_write_to (write_fd ?i1)) evs \<and> pipe_bytes evs = concat (map fst ws)"
    using assms(2-5) by (intro wkg_writes_streaming) simp_all
  then obtain evs where e:
    "wkg_run (map (\<lambda>(d, sys). (Write d, None, sys)) ws) ?x1 = Some (?x1\<lparr>trace := trace ?x1 @ evs\<rparr>)"
    "list_all (is_write_to wfd) evs" "pipe_bytes evs = concat (map fst ws)"
    by auto
  have f1: "wkg_finish (?x1\<lparr>trace := trace ?x1 @ evs\<rparr>) =
      \<lparr>m_impl = Some (i\<lparr>started := True, finished := True, write_fd := - 1\<rparr>),
       trace = trace x @ [Finish_with_response (request i) (Unix_input_stream rfd) (- 1)
                            (mime r) (status r) (headers r)] @ evs @ [Sys_close wfd]\<rparr>"
    using assms(3,4) by (simp add: wkg_finish_def)
  have wkg: "wkg_run ((Start r, Some (rfd, wfd), []) #
                      map (\<lambda>(d, sys). (Write d, None, sys)) ws @ [(Finish, None, [])]) x =
                 Some \<lparr>m_impl = Some (i\<lparr>started := True, finished := True, write_fd := - 1\<rparr>),
                       trace = trace x @
                         [Finish_with_response (request i) (Unix_input_stream rfd) (- 1)
                            (mime r) (status r) (headers r)] @ evs @ [Sys_close wfd]\<rparr>"
    using e(1) f1 by (simp add: s1 wkg_run_append)
  \<comment> \<open>WebKit\<close>
  let ?j1 = "j\<lparr>started := True\<rparr>"
  let ?y1 = "y\<lparr>m_impl := Some ?j1,
               trace := trace y @ [Main_queue (Did_receive_response t (status r)
                                    ((headers r)(''Content-Type'' \<mapsto> mime r)))]\<rparr>"
  have s2: "wk_start r y = ?y1"
    using assms(6-9) by (simp add: wk_start_def Let_def)
  have w2: "wk_run (map Write ds) ?y1 =
     ?y1\<lparr>trace := trace ?y1 @ map (\<lambda>d. Main_queue (Did_receive_data t d)) ds\<rparr>"
    using assms(8,9) by (intro wk_writes_streaming [where j = ?j1]) simp_all
  have f2: "wk_finish (?y1\<lparr>trace := trace ?y1 @ map (\<lambda>d. Main_queue (Did_receive_data t d)) ds\<rparr>) =
     y\<lparr>m_impl := Some (j\<lparr>started := True, finished := True\<rparr>),
             trace := trace y @
               [Main_queue (Did_receive_response t (status r)
                  ((headers r)(''Content-Type'' \<mapsto> mime r)))] @
               map (\<lambda>d. Main_queue (Did_receive_data t d)) ds @ [Main_queue (Did_finish t)],
             tasks := (tasks y)(handle j := None)\<rparr>"
    using assms(8,9) by (simp add: wk_finish_def Let_def)
  have wk: "wk_run (Start r # map Write ds @ [Finish]) y =
           y\<lparr>m_impl := Some (j\<lparr>started := True, finished := True\<rparr>),
             trace := trace y @
               [Main_queue (Did_receive_response t (status r)
                  ((headers r)(''Content-Type'' \<mapsto> mime r)))] @
               map (\<lambda>d. Main_queue (Did_receive_data t d)) ds @ [Main_queue (Did_finish t)],
             tasks := (tasks y)(handle j := None)\<rparr>"
    using f2 by (simp only: wk_run_Cons wk_run_append wk_call.simps s2 w2) (simp add: wk_run_def)
  \<comment> \<open>Qt\<close>
  let ?k1 = "k\<lparr>started := True\<rparr>"
  let ?z1 = "z\<lparr>m_impl := Some ?k1,
               trace := trace z @ [Set_additional_response_headers (headers r),
                                   Reply (mime r) Stream_device]\<rparr>"
  have s3: "qt_start r z = ?z1"
    using assms(10-14) by (simp add: qt_start_def Let_def to_array_def)
  have w3: "qt_run (map Write ds) ?z1 = ?z1\<lparr>trace := trace ?z1 @ map Push ds\<rparr>"
    using assms(12,13) by (intro qt_writes_streaming [where k = ?k1]) simp_all
  have f3: "qt_finish (?z1\<lparr>trace := trace ?z1 @ map Push ds\<rparr>) =
     z\<lparr>m_impl := Some (k\<lparr>started := True, finished := True\<rparr>),
             trace := trace z @
               [Set_additional_response_headers (headers r), Reply (mime r) Stream_device] @
               map Push ds @ [Close_write]\<rparr>"
    using assms(12,13) by (simp add: qt_finish_def Let_def)
  have qt: "qt_run (Start r # map Write ds @ [Finish]) z =
           z\<lparr>m_impl := Some (k\<lparr>started := True, finished := True\<rparr>),
             trace := trace z @
               [Set_additional_response_headers (headers r), Reply (mime r) Stream_device] @
               map Push ds @ [Close_write]\<rparr>"
    using f3 by (simp only: qt_run_Cons qt_run_append qt_call.simps s3 w3) (simp add: qt_run_def)
  from wkg e(2,3) wk qt show ?thesis by blast
qed

theorem stream_sequence_witness:
  "(\<exists>evs. wkg_run [(Start example_stream_response, Some (3, 4), []),
                    (Write [1, 2], None, [Wrote 1, Eintr, Wrote 1]),
                    (Write [3], None, [Wrote 1]),
                    (Finish, None, [])] wkg_idle =
            Some \<lparr>m_impl = Some \<lparr>started = True, finished = True, resolve_set = True,
                                   reject_set = True, request = example_request, write_fd = - 1\<rparr>,
                  trace = [Finish_with_response example_request (Unix_input_stream 3) (- 1)
                             ''application/octet-stream'' 200 [''Cache-Control'' \<mapsto> ''no-cache'']] @
                          evs @ [Sys_close 4]\<rparr> \<and>
          pipe_bytes evs = [1, 2, 3]) \<and>
   trace (wk_run [Start example_stream_response, Write [1, 2], Write [3], Finish] wk_idle) =
     [Main_queue (Did_receive_response example_task 200
        [''Cache-Control'' \<mapsto> ''no-cache'', ''Content-Type'' \<mapsto> ''application/octet-stream'']),
      Main_queue (Did_receive_data example_task [1, 2]),
      Main_queue (Did_receive_data example_task [3]),
      Main_queue (Did_finish example_task)] \<and>
   trace (qt_run [Start example_stream_response, Write [1, 2], Write [3], Finish] qt_idle) =
     [Set_additional_response_headers [''Cache-Control'' \<mapsto> ''no-cache''],
      Reply ''application/octet-stream'' Stream_device, Push [1, 2], Push [3], Close_write]"
proof -
  have h: "tasks wk_idle (handle \<lparr>started = False, finished = False,
       resolve_set = True, reject_set = True, task = example_task, handle = 7\<rparr>) = Some example_task"
    by (simp add: wk_idle_def)
  have q: "request_value qt_idle = Some example_job"
    by (simp add: qt_idle_def)
  have ws: "\<forall>(d, sys) \<in> set [([1, 2 :: 8 word], [Wrote 1, Eintr, Wrote 1]), ([3], [Wrote 1])].
              Error \<notin> set sys \<and> length d \<le> progress sys"
    by simp
  have t: "trace wkg_idle = []" "trace wk_idle = []" "trace qt_idle = []"
    by (simp_all add: wkg_idle_def wk_idle_def qt_idle_def)
  have r: "mime example_stream_response = ''application/octet-stream''"
    "status example_stream_response = 200"
    "headers example_stream_response = [''Cache-Control'' \<mapsto> ''no-cache'']"
    by (simp_all add: example_stream_response_def)
  show ?thesis
    using stream_sequence [OF wkg_idle_impl _ _ _ ws wk_idle_impl _ _ h qt_idle_impl _ _ _ q,
        of 4 example_stream_response 3 "[[1, 2], [3]]"]
    by (simp add: t r) blast
qed

text \<open>
  C2 as stated fails. In the Qt backend two stream responses that differ only in
  their status give the native layer the same calls, so the header delivery does not
  carry the status; and in the WebKitGTK backend an empty chunk makes no
  \<^verbatim>\<open>::write\<close> call, so a written chunk need not show as a delivery event.
\<close>

theorem stream_status_and_chunks_counterexample:
  "trace (qt_run [Start example_stream_response, Write [1], Finish] qt_idle) =
     [Set_additional_response_headers [''Cache-Control'' \<mapsto> ''no-cache''],
      Reply ''application/octet-stream'' Stream_device, Push [1], Close_write] \<and>
   trace (qt_run [Start (example_stream_response\<lparr>status := 404\<rparr>), Write [1], Finish] qt_idle) =
     [Set_additional_response_headers [''Cache-Control'' \<mapsto> ''no-cache''],
      Reply ''application/octet-stream'' Stream_device, Push [1], Close_write] \<and>
   status example_stream_response \<noteq> status (example_stream_response\<lparr>status := 404\<rparr>) \<and>
   wkg_run [(Start example_stream_response, Some (3, 4), []), (Write [], None, []),
            (Finish, None, [])] wkg_idle =
     Some \<lparr>m_impl = Some \<lparr>started = True, finished = True, resolve_set = True,
                            reject_set = True, request = example_request, write_fd = - 1\<rparr>,
           trace = [Finish_with_response example_request (Unix_input_stream 3) (- 1)
                      ''application/octet-stream'' 200 [''Cache-Control'' \<mapsto> ''no-cache''],
                    Sys_close 4]\<rparr>"
  by (simp add: qt_run_def qt_idle_def wkg_idle_def example_stream_response_def
      qt_start_def qt_write_def qt_finish_def to_array_def
      wkg_start_def wkg_write_def wkg_finish_def)

section \<open>The request snapshot of the Qt backend\<close>

text \<open>
  \<open>content\<close> returns the body captured when the request started, whatever the state
  of the native job. \<open>url\<close>, \<open>method\<close> and \<open>headers\<close> call the job the shared
  pointer holds.
\<close>

lemma request_content_captured: "request_content cell rq = Inr (body rq)"
  by (simp add: request_content_def)

lemma request_reads_live_job:
  "request_url (Some job) rq = Inr (requestUrl job) \<and>
   request_method (Some job) rq = Inr (requestMethod job) \<and>
   request_headers (Some job) rq =
     Inr (map_of (map (\<lambda>item. (item, case map_of (requestHeaders job) item of
                                          None \<Rightarrow> [] | Some v \<Rightarrow> v))
                   (map snd (requestHeaders job))))"
  by (simp add: request_url_def request_method_def request_headers_def Let_def)

text \<open>
  C3. The operations of a request snapshot are to stay safe to call after the native
  request object is destroyed. In the Qt backend they do not: once the job's
  \<^verbatim>\<open>destroyed\<close> connection has set the shared pointer to null, \<open>method\<close>, \<open>url\<close> and
  \<open>headers\<close> call through the null pointer (they do not test
  \<^verbatim>\<open>request.value()\<close>, as \<open>start\<close>, \<open>streaming\<close> and the two callbacks of the
  executor do); only \<open>content\<close> still returns the captured body.
\<close>

theorem request_after_destroyed_dereferences_null:
  "request_method (request_value qt_idle) \<lparr>body = [7, 8]\<rparr> = Inr ''POST'' \<and>
   request_method (request_value (destroyed qt_idle)) \<lparr>body = [7, 8]\<rparr> = Inl Null_dereference \<and>
   request_url (request_value (destroyed qt_idle)) \<lparr>body = [7, 8]\<rparr> = Inl Null_dereference \<and>
   request_headers (request_value (destroyed qt_idle)) \<lparr>body = [7, 8]\<rparr> = Inl Null_dereference \<and>
   request_content (request_value (destroyed qt_idle)) \<lparr>body = [7, 8]\<rparr> = Inr [7, 8]"
  by (simp add: request_method_def request_url_def request_headers_def request_content_def
      destroyed_def qt_idle_def example_job_def)

section \<open>Rejecting a started stream\<close>

text \<open>
  C4, amended. On an executor on which \<open>start\<close> has committed the headers, \<open>reject\<close>
  \<^item> in the WebKitGTK backend delivers no error: it closes the write end of the pipe
    if it is open (the reader sees the end of the stream), and sets \<open>finished\<close>;
  \<^item> in the WebKit backend, while the stream is unfinished and the task is in the
    table, erases the table entry and sends the task \<^verbatim>\<open>didFailWithError\<close> with the
    error's code on the main queue;
  \<^item> in the Qt backend, while the stream is unfinished and the job is live, calls
    \<^verbatim>\<open>close_write\<close> on the device and then \<^verbatim>\<open>fail\<close> on the job with the error's
    code.
  In each backend the executor is finished afterwards and \<open>streaming\<close> is false.
\<close>

theorem reject_after_start:
  assumes "m_impl x = Some i" and "started i"
    and "m_impl y = Some j" and "started j" and "\<not> finished j" and "tasks y (handle j) = Some t"
    and "m_impl z = Some k" and "started k" and "\<not> finished k" and "device k" and "reject_set k"
    and "request_value z = Some job"
  shows "wkg_reject e x =
           (if 0 \<le> write_fd i
            then \<lparr>m_impl = Some (i\<lparr>write_fd := - 1, finished := True\<rparr>),
                   trace = trace x @ [Sys_close (write_fd i)]\<rparr>
            else \<lparr>m_impl = Some (i\<lparr>finished := True\<rparr>), trace = trace x\<rparr>) \<and>
         \<not> wkg_streaming (wkg_reject e x) \<and>
         wk_reject e y =
           y\<lparr>m_impl := Some (j\<lparr>finished := True\<rparr>),
             trace := trace y @ [Main_queue (Did_fail_with_error t (sint (to_underlying e)))],
             tasks := (tasks y)(handle j := None)\<rparr> \<and>
         \<not> wk_streaming (wk_reject e y) \<and>
         qt_reject e z =
           z\<lparr>m_impl := Some (k\<lparr>finished := True\<rparr>),
             trace := trace z @ [Close_write, Fail (qt_error_of e)]\<rparr> \<and>
         \<not> qt_streaming (qt_reject e z)"
proof -
  have a: "wkg_reject e x =
           (if 0 \<le> write_fd i
            then \<lparr>m_impl = Some (i\<lparr>write_fd := - 1, finished := True\<rparr>),
                   trace = trace x @ [Sys_close (write_fd i)]\<rparr>
            else \<lparr>m_impl = Some (i\<lparr>finished := True\<rparr>), trace = trace x\<rparr>)"
    using assms(1,2) by (simp add: wkg_reject_def)
  have a': "\<not> wkg_streaming (wkg_reject e x)"
    unfolding a by (simp add: wkg_streaming_def)
  have b: "wk_reject e y =
           y\<lparr>m_impl := Some (j\<lparr>finished := True\<rparr>),
             trace := trace y @ [Main_queue (Did_fail_with_error t (sint (to_underlying e)))],
             tasks := (tasks y)(handle j := None)\<rparr>"
    using assms(3-6) by (simp add: wk_reject_def Let_def)
  have b': "\<not> wk_streaming (wk_reject e y)"
    unfolding b by (simp add: wk_streaming_def)
  have c: "qt_reject e z =
           z\<lparr>m_impl := Some (k\<lparr>finished := True\<rparr>),
             trace := trace z @ [Close_write, Fail (qt_error_of e)]\<rparr>"
    using assms(7-12) by (simp add: qt_reject_def qt_reject_closure_def Let_def)
  have c': "\<not> qt_streaming (qt_reject e z)"
    unfolding c by (simp add: qt_streaming_def)
  from a a' b b' c c' show ?thesis by blast
qed

theorem reject_after_start_witness:
  "wkg_reject denied wkg_streaming_state =
     \<lparr>m_impl = Some \<lparr>started = True, finished = True, resolve_set = True, reject_set = True,
          request = example_request, write_fd = - 1\<rparr>,
      trace = [Sys_close 5]\<rparr> \<and>
   trace (wk_reject denied (wk_start example_stream_response wk_idle)) =
     trace (wk_start example_stream_response wk_idle) @
       [Main_queue (Did_fail_with_error example_task 401)] \<and>
   trace (qt_reject denied (qt_start example_stream_response qt_idle)) =
     trace (qt_start example_stream_response qt_idle) @ [Close_write, Fail RequestDenied]"
proof -
  have h1: "m_impl wkg_streaming_state = Some \<lparr>started = True, finished = False,
       resolve_set = True, reject_set = True, request = example_request, write_fd = 5\<rparr>"
    by (simp add: wkg_streaming_state_def)
  have h2: "m_impl (wk_start example_stream_response wk_idle) = Some \<lparr>started = True,
       finished = False, resolve_set = True, reject_set = True, task = example_task, handle = 7\<rparr>"
    by (simp add: wk_start_def wk_idle_def)
  have h3: "tasks (wk_start example_stream_response wk_idle) (handle \<lparr>started = True,
       finished = False, resolve_set = True, reject_set = True, task = example_task, handle = 7\<rparr>)
       = Some example_task"
    by (simp add: wk_start_def wk_idle_def)
  have h4: "m_impl (qt_start example_stream_response qt_idle) = Some \<lparr>started = True,
       finished = False, resolve_set = True, reject_set = True, device = True\<rparr>"
    by (simp add: qt_start_def qt_idle_def)
  have h5: "request_value (qt_start example_stream_response qt_idle) = Some example_job"
    by (simp add: qt_start_def qt_idle_def)
  have t: "trace wkg_streaming_state = []"
    by (simp add: wkg_streaming_state_def)
  show ?thesis
    using reject_after_start [OF h1 _ h2 _ _ h3 h4 _ _ _ _ h5, of denied]
    by (simp add: t)
qed

text \<open>
  C4 as stated fails: after \<open>start\<close>, \<open>reject not_found\<close> does deliver a native
  error code in the Qt backend (\<^verbatim>\<open>fail(UrlNotFound)\<close>, after \<^verbatim>\<open>close_write\<close>) and
  in the WebKit backend (\<^verbatim>\<open>didFailWithError\<close> with code 404).
\<close>

theorem reject_after_start_delivers_error_counterexample:
  "trace (qt_run [Start example_stream_response, Reject not_found] qt_idle) =
     [Set_additional_response_headers [''Cache-Control'' \<mapsto> ''no-cache''],
      Reply ''application/octet-stream'' Stream_device, Close_write, Fail UrlNotFound] \<and>
   trace (wk_run [Start example_stream_response, Reject not_found] wk_idle) =
     [Main_queue (Did_receive_response example_task 200
        [''Cache-Control'' \<mapsto> ''no-cache'', ''Content-Type'' \<mapsto> ''application/octet-stream'']),
      Main_queue (Did_fail_with_error example_task 404)]"
  by (simp add: qt_run_def wk_run_def qt_idle_def wk_idle_def example_stream_response_def
      qt_start_def qt_reject_def qt_reject_closure_def wk_start_def wk_reject_def to_array_def)

section \<open>Cancellation from the native side\<close>

text \<open>
  In the WebKit backend, once \<^verbatim>\<open>stopURLSchemeTask\<close> has erased the handle's entry
  from the table, every later \<open>write\<close> leaves the state and the log of native calls
  as they are, and \<open>streaming\<close> is false. In the Qt backend, once the job's
  \<^verbatim>\<open>destroyed\<close> connection has set the request pointer to null, \<open>streaming\<close> is
  false.
\<close>

lemma wk_stopped_task:
  assumes "m_impl y = Some j" and "hash t = handle j"
  shows "wk_write d (stopURLSchemeTask t y) = stopURLSchemeTask t y \<and>
         wk_run (map Write ds) (stopURLSchemeTask t y) = stopURLSchemeTask t y \<and>
         \<not> wk_streaming (stopURLSchemeTask t y)"
proof -
  have m: "m_impl (stopURLSchemeTask t y) = Some j"
    using assms(1) by (simp add: stopURLSchemeTask_def)
  have n: "tasks (stopURLSchemeTask t y) (handle j) = None"
    using assms(2) by (simp add: stopURLSchemeTask_def)
  have a: "wk_write d (stopURLSchemeTask t y) = stopURLSchemeTask t y"
    using m n by (rule wk_write_absent)
  have b: "wk_run (map Write ds) (stopURLSchemeTask t y) = stopURLSchemeTask t y"
    using m n by (rule wk_writes_absent)
  have c: "\<not> wk_streaming (stopURLSchemeTask t y)"
    using m n by (simp add: wk_streaming_def)
  from a b c show ?thesis by blast
qed

lemma qt_destroyed_not_streaming: "\<not> qt_streaming (destroyed z)"
  by (simp add: qt_streaming_def destroyed_def split: option.splits)

lemma qt_write_after_destroyed:
  assumes "m_impl z = Some k" and "started k" and "\<not> finished k" and "device k"
  shows "qt_write d (destroyed z) = z\<lparr>request_value := None, trace := trace z @ [Close_write, Push d]\<rparr>"
  using assms by (simp add: qt_write_def destroyed_def)

text \<open>
  C5. After the native side has invalidated the request, a \<open>write\<close> is to make no
  native call. In the Qt backend it does: after \<open>start\<close>, once the job's
  \<^verbatim>\<open>destroyed\<close> connection has set the request pointer to null and closed the
  device for writing, \<open>streaming\<close> is false, yet \<open>write\<close> still calls \<^verbatim>\<open>push\<close> and
  \<open>finish\<close> still calls \<^verbatim>\<open>close_write\<close> on the stream device, a child object of the
  destroyed job. Both test \<open>started\<close>, \<open>finished\<close> and \<open>device\<close> only, and not
  \<^verbatim>\<open>request.value()\<close> as \<open>start\<close> and \<open>streaming\<close> do (\<open>qt_write_after_destroyed\<close>
  is the general fact). The WebKit backend looks the handle up again before each
  call (\<open>wk_stopped_task\<close>).
\<close>

theorem qt_write_after_destroyed_pushes:
  "\<not> qt_streaming (destroyed (qt_run [Start example_stream_response] qt_idle)) \<and>
   trace (destroyed (qt_run [Start example_stream_response] qt_idle)) =
     [Set_additional_response_headers [''Cache-Control'' \<mapsto> ''no-cache''],
      Reply ''application/octet-stream'' Stream_device, Close_write] \<and>
   trace (qt_run [Write [1], Finish] (destroyed (qt_run [Start example_stream_response] qt_idle))) =
     [Set_additional_response_headers [''Cache-Control'' \<mapsto> ''no-cache''],
      Reply ''application/octet-stream'' Stream_device, Close_write, Push [1], Close_write]"
  by (simp add: qt_run_def qt_idle_def example_stream_response_def qt_streaming_def destroyed_def
      qt_start_def qt_write_def qt_finish_def to_array_def)

section \<open>Error codes\<close>

text \<open>
  C6. The error kinds have the codes \<open>not_found = 404\<close>, \<open>invalid = 400\<close>,
  \<open>denied = 401\<close>, \<open>failed = -1\<close>. On an idle executor whose native request is live,
  \<open>reject not_found\<close> makes exactly one native call, the error delivery with the
  backend's code for 404 (a \<^verbatim>\<open>GError\<close> with code 404 named \<open>not_found\<close>,
  \<^verbatim>\<open>didFailWithError\<close> with code 404, \<^verbatim>\<open>fail(UrlNotFound)\<close>), delivers no header,
  and leaves the executor finished.
\<close>

theorem reject_not_found_pre_stream:
  assumes "m_impl x = Some i" and "\<not> started i" and "\<not> finished i" and "reject_set i"
    and "m_impl y = Some j" and "\<not> started j" and "\<not> finished j" and "reject_set j"
    and "tasks y (handle j) = Some t"
    and "m_impl z = Some k" and "\<not> started k" and "\<not> finished k" and "reject_set k"
    and "request_value z = Some job"
  shows "sint (to_underlying not_found) = 404 \<and> sint (to_underlying invalid) = 400 \<and>
         sint (to_underlying denied) = 401 \<and> sint (to_underlying failed) = - 1 \<and>
         wkg_reject not_found x =
           \<lparr>m_impl = Some (i\<lparr>finished := True\<rparr>),
            trace = trace x @ [Finish_error (request i) 404 ''not_found'']\<rparr> \<and>
         wk_reject not_found y =
           y\<lparr>m_impl := Some (j\<lparr>finished := True\<rparr>),
             trace := trace y @ [Direct (Did_fail_with_error t 404)],
             tasks := (tasks y)(handle j := None)\<rparr> \<and>
         qt_reject not_found z =
           z\<lparr>m_impl := Some (k\<lparr>finished := True\<rparr>), trace := trace z @ [Fail UrlNotFound]\<rparr>"
proof -
  have a: "wkg_reject not_found x =
           \<lparr>m_impl = Some (i\<lparr>finished := True\<rparr>),
            trace = trace x @ [Finish_error (request i) 404 ''not_found'']\<rparr>"
    using assms(1-4) by (simp add: wkg_reject_def wkg_reject_closure_def)
  have b: "wk_reject not_found y =
           y\<lparr>m_impl := Some (j\<lparr>finished := True\<rparr>),
             trace := trace y @ [Direct (Did_fail_with_error t 404)],
             tasks := (tasks y)(handle j := None)\<rparr>"
    using assms(5-9) by (simp add: wk_reject_def wk_reject_closure_def Let_def)
  have c: "qt_reject not_found z =
           z\<lparr>m_impl := Some (k\<lparr>finished := True\<rparr>), trace := trace z @ [Fail UrlNotFound]\<rparr>"
    using assms(10-14) by (simp add: qt_reject_def qt_reject_closure_def Let_def)
  from a b c show ?thesis by simp
qed

theorem reject_not_found_pre_stream_witness:
  "trace (wkg_reject not_found wkg_idle) = [Finish_error example_request 404 ''not_found''] \<and>
   trace (wk_reject not_found wk_idle) = [Direct (Did_fail_with_error example_task 404)] \<and>
   trace (qt_reject not_found qt_idle) = [Fail UrlNotFound]"
proof -
  have h: "tasks wk_idle (handle \<lparr>started = False, finished = False,
       resolve_set = True, reject_set = True, task = example_task, handle = 7\<rparr>) = Some example_task"
    by (simp add: wk_idle_def)
  have r: "request_value qt_idle = Some example_job"
    by (simp add: qt_idle_def)
  have t: "trace wkg_idle = []" "trace wk_idle = []" "trace qt_idle = []"
    by (simp_all add: wkg_idle_def wk_idle_def qt_idle_def)
  show ?thesis
    using reject_not_found_pre_stream [OF wkg_idle_impl _ _ _ wk_idle_impl _ _ _ h qt_idle_impl _ _ _ r]
    by (simp add: t)
qed

section \<open>The dispatcher\<close>





section \<open>A start that cannot get its resource\<close>

text \<open>
  C8. When \<open>start\<close> on an idle executor cannot get its resource (WebKitGTK:
  \<^verbatim>\<open>pipe\<close> fails; WebKit: the handle is not in the table), it returns with the
  executor, the table and the log of native calls exactly as they were, so every later
  sequence of calls runs as if the failed \<open>start\<close> had not happened. In the WebKitGTK
  backend a later \<open>resolve\<close>, \<open>reject\<close> or \<open>start\<close> (with a pipe) then makes its
  delivery.
\<close>

theorem failed_start_leaves_idle:
  assumes "m_impl x = Some i" and "\<not> started i" and "\<not> finished i"
    and "m_impl y = Some j" and "\<not> started j" and "\<not> finished j"
    and "tasks y (handle j) = None"
  shows "wkg_start r None x = x \<and> wk_start r y = y \<and>
         wkg_run cs (wkg_start r None x) = wkg_run cs x \<and>
         wk_run cs' (wk_start r y) = wk_run cs' y \<and>
         (resolve_set i \<longrightarrow>
            trace (wkg_resolve r' (wkg_start r None x)) =
              trace x @ [Finish_with_response (request i) (Memory_input_stream (data r'))
                           (int (length (data r'))) (mime r') (status r') (headers r')]) \<and>
         (reject_set i \<longrightarrow>
            trace (wkg_reject e (wkg_start r None x)) =
              trace x @ [Finish_error (request i) (sint (to_underlying e)) (find_enum_name e)]) \<and>
         trace (wkg_start r'' (Some (rfd, wfd)) (wkg_start r None x)) =
           trace x @ [Finish_with_response (request i) (Unix_input_stream rfd) (- 1)
                        (mime r'') (status r'') (headers r'')]"
proof -
  have a: "wkg_start r None x = x"
    using assms(1-3) by (simp add: wkg_start_def Let_def)
  have b: "wk_start r y = y"
    using assms(4-7) by (simp add: wk_start_def Let_def)
  have c: "resolve_set i \<longrightarrow>
            trace (wkg_resolve r' x) =
              trace x @ [Finish_with_response (request i) (Memory_input_stream (data r'))
                           (int (length (data r'))) (mime r') (status r') (headers r')]"
    using assms(1-3) by (simp add: wkg_resolve_def wkg_resolve_closure_def)
  have d: "reject_set i \<longrightarrow>
            trace (wkg_reject e x) =
              trace x @ [Finish_error (request i) (sint (to_underlying e)) (find_enum_name e)]"
    using assms(1-3) by (simp add: wkg_reject_def wkg_reject_closure_def)
  have e: "trace (wkg_start r'' (Some (rfd, wfd)) x) =
           trace x @ [Finish_with_response (request i) (Unix_input_stream rfd) (- 1)
                        (mime r'') (status r'') (headers r'')]"
    using assms(1-3) by (simp add: wkg_start_def Let_def)
  from a b c d e show ?thesis by simp
qed

theorem failed_start_leaves_idle_witness:
  "wkg_start example_stream_response None wkg_idle = wkg_idle \<and>
   wk_start example_stream_response (wk_idle\<lparr>tasks := Map.empty\<rparr>) = wk_idle\<lparr>tasks := Map.empty\<rparr> \<and>
   trace (wkg_reject not_found (wkg_start example_stream_response None wkg_idle)) =
     [Finish_error example_request 404 ''not_found'']"
proof -
  have h1: "m_impl wkg_idle = Some \<lparr>started = False, finished = False, resolve_set = True,
       reject_set = True, request = example_request, write_fd = - 1\<rparr>"
    by (simp add: wkg_idle_def)
  have h2: "m_impl (wk_idle\<lparr>tasks := Map.empty\<rparr>) = Some \<lparr>started = False, finished = False,
       resolve_set = True, reject_set = True, task = example_task, handle = 7\<rparr>"
    by (simp add: wk_idle_def)
  have h3: "tasks (wk_idle\<lparr>tasks := Map.empty\<rparr>) (handle \<lparr>started = False, finished = False,
       resolve_set = True, reject_set = True, task = example_task, handle = 7\<rparr>) = None"
    by simp
  have t: "trace wkg_idle = []"
    by (simp add: wkg_idle_def)
  show ?thesis
    using failed_start_leaves_idle [OF h1 _ _ h2 _ _ h3, of example_stream_response "[]" "[]"
        example_response not_found example_stream_response 3 4]
    by (auto simp: t)
qed

section \<open>Null handles\<close>

text \<open>
  C9. On a handle whose impl pointer is null, \<open>resolve\<close>, \<open>reject\<close>, \<open>start\<close>,
  \<open>write\<close> and \<open>finish\<close> return with the state and the log of native calls
  unchanged, for every argument, and \<open>streaming\<close> is false; in each of the three
  backends.
\<close>

theorem null_handle_total:
  assumes "m_impl x = None" and "m_impl y = None" and "m_impl z = None"
  shows "(wkg_resolve r x = x \<and> wkg_reject e x = x \<and> wkg_start s p x = x \<and>
          wkg_write d sys x = Some x \<and> wkg_finish x = x \<and> \<not> wkg_streaming x) \<and>
         (wk_resolve r y = y \<and> wk_reject e y = y \<and> wk_start s y = y \<and>
          wk_write d y = y \<and> wk_finish y = y \<and> \<not> wk_streaming y) \<and>
         (qt_resolve r z = z \<and> qt_reject e z = z \<and> qt_start s z = z \<and>
          qt_write d z = z \<and> qt_finish z = z \<and> \<not> qt_streaming z)"
proof -
  have wkg: "wkg_resolve r x = x \<and> wkg_reject e x = x \<and> wkg_start s p x = x \<and>
          wkg_write d sys x = Some x \<and> wkg_finish x = x \<and> \<not> wkg_streaming x"
    using assms(1)
    by (simp add: wkg_resolve_def wkg_reject_def wkg_start_def wkg_write_def wkg_finish_def
        wkg_streaming_def)
  have wk: "wk_resolve r y = y \<and> wk_reject e y = y \<and> wk_start s y = y \<and>
          wk_write d y = y \<and> wk_finish y = y \<and> \<not> wk_streaming y"
    using assms(2)
    by (simp add: wk_resolve_def wk_reject_def wk_start_def wk_write_def wk_finish_def
        wk_streaming_def)
  have qt: "qt_resolve r z = z \<and> qt_reject e z = z \<and> qt_start s z = z \<and>
          qt_write d z = z \<and> qt_finish z = z \<and> \<not> qt_streaming z"
    using assms(3)
    by (simp add: qt_resolve_def qt_reject_def qt_start_def qt_write_def qt_finish_def
        qt_streaming_def)
  from wkg wk qt show ?thesis by blast
qed

theorem null_handle_total_witness:
  "wkg_resolve example_response \<lparr>m_impl = None, trace = []\<rparr> = \<lparr>m_impl = None, trace = []\<rparr> \<and>
   wkg_write [1, 2] [] \<lparr>m_impl = None, trace = []\<rparr> = Some \<lparr>m_impl = None, trace = []\<rparr> \<and>
   wk_reject not_found \<lparr>m_impl = None, trace = [], tasks = Map.empty\<rparr>
     = \<lparr>m_impl = None, trace = [], tasks = Map.empty\<rparr> \<and>
   qt_start example_stream_response \<lparr>m_impl = None, trace = [], request_value = None\<rparr>
     = \<lparr>m_impl = None, trace = [], request_value = None\<rparr> \<and>
   \<not> qt_streaming \<lparr>m_impl = None, trace = [], request_value = None\<rparr>"
  using null_handle_total [of "\<lparr>m_impl = None, trace = []\<rparr>"
      "\<lparr>m_impl = None, trace = [], tasks = Map.empty\<rparr>"
      "\<lparr>m_impl = None, trace = [], request_value = None\<rparr>"
      example_response not_found example_stream_response None "[1, 2]" "[]"]
  by simp

end
